theory Spec2Isabelle
  imports Main "HOL-Library.Sublist"
begin

unbundle bit_operations_syntax

section \<open>Python strings and exceptions\<close>

text \<open>
  A Python \<open>str\<close> is modelled as a \<open>string\<close>, one \<open>char\<close> per code point; the
  model covers code points below 256. The exceptions that the library calls of
  \<open>export_tarball.py\<close> can raise are values of \<open>py_error\<close>.
\<close>

datatype py_error = ValueError | TypeError | OSError

definition startswith :: "string \<Rightarrow> string \<Rightarrow> bool" where
  "startswith s p \<longleftrightarrow> prefix p s"

definition endswith :: "string \<Rightarrow> string \<Rightarrow> bool" where
  "endswith s p \<longleftrightarrow> suffix p s"

text \<open>\<open>sub in s\<close> on strings: \<open>sub\<close> occurs in \<open>s\<close> as a contiguous substring.\<close>

definition str_in :: "string \<Rightarrow> string \<Rightarrow> bool" where
  "str_in sub s \<longleftrightarrow> sublist sub s"

text \<open>\<open>s.split(c)\<close> for a one-character separator, \<open>s.rstrip(c)\<close>, \<open>s.lstrip(c)\<close>
  and \<open>sep.join(ws)\<close>.\<close>

fun str_split :: "char \<Rightarrow> string \<Rightarrow> string list" where
  "str_split c [] = [[]]"
| "str_split c (x # xs) =
     (if x = c then [] # str_split c xs
      else (case str_split c xs of [] \<Rightarrow> [[x]] | w # ws \<Rightarrow> (x # w) # ws))"

definition rstrip :: "char \<Rightarrow> string \<Rightarrow> string" where
  "rstrip c s = rev (dropWhile (\<lambda>x. x = c) (rev s))"

definition lstrip :: "char \<Rightarrow> string \<Rightarrow> string" where
  "lstrip c s = dropWhile (\<lambda>x. x = c) s"

definition str_join :: "string \<Rightarrow> string list \<Rightarrow> string" where
  "str_join s ws = (case ws of [] \<Rightarrow> [] | w # r \<Rightarrow> w @ concat (map (\<lambda>v. s @ v) r))"

text \<open>\<open>str.isspace\<close> on the code points below 256, which is what \<open>\S\<close> of a \<open>str\<close>
  pattern excludes.\<close>

definition isspace :: "char \<Rightarrow> bool" where
  "isspace c \<longleftrightarrow> (of_char c :: nat) \<in> {9, 10, 11, 12, 13, 28, 29, 30, 31, 32, 133, 160}"

section \<open>The \<open>posixpath\<close> functions the tool calls\<close>

definition sep :: char where
  "sep = CHR ''/''"

definition curdir :: string where
  "curdir = ''.''"

definition pardir :: string where
  "pardir = ''..''"

definition isabs :: "string \<Rightarrow> bool" where
  "isabs s \<longleftrightarrow> startswith s [sep]"

text \<open>\<open>os.path.join(a, b)\<close>, and \<open>join(a, *p)\<close> as the loop over \<open>p\<close>.\<close>

definition path_join :: "string \<Rightarrow> string \<Rightarrow> string" where
  "path_join a b =
     (if startswith b [sep] then b
      else if a = [] \<or> endswith a [sep] then a @ b
      else a @ [sep] @ b)"

fun path_join_list :: "string \<Rightarrow> string list \<Rightarrow> string" where
  "path_join_list path [] = path"
| "path_join_list path (b # p) = path_join_list (path_join path b) p"

text \<open>\<open>os.path.split(p)\<close>: \<open>i = p.rfind(sep) + 1\<close>, \<open>head, tail = p[:i], p[i:]\<close>, and the
  head loses its trailing separators unless it consists of separators only.\<close>

definition path_split :: "string \<Rightarrow> string \<times> string" where
  "path_split p =
     (let head = rev (dropWhile (\<lambda>c. c \<noteq> sep) (rev p));
          tail = rev (takeWhile (\<lambda>c. c \<noteq> sep) (rev p))
      in (if head \<noteq> [] \<and> head \<noteq> replicate (length head) sep then rstrip sep head else head,
          tail))"

definition basename :: "string \<Rightarrow> string" where
  "basename p = rev (takeWhile (\<lambda>c. c \<noteq> sep) (rev p))"

text \<open>\<open>os.path.normpath\<close>: the loop over the components with the list \<open>new_comps\<close>,
  then the function around it. \<open>initial_slashes\<close> is 0, 1 or 2.\<close>

fun normpath_loop :: "nat \<Rightarrow> string list \<Rightarrow> string list \<Rightarrow> string list" where
  "normpath_loop initial_slashes [] new_comps = new_comps"
| "normpath_loop initial_slashes (part # comps) new_comps =
     (if part \<in> set [[], ''.''] then normpath_loop initial_slashes comps new_comps
      else if part \<noteq> ''..'' \<or> (initial_slashes = 0 \<and> new_comps = [])
              \<or> (new_comps \<noteq> [] \<and> last new_comps = ''..'')
        then normpath_loop initial_slashes comps (new_comps @ [part])
      else if new_comps \<noteq> [] then normpath_loop initial_slashes comps (butlast new_comps)
      else normpath_loop initial_slashes comps new_comps)"

definition normpath :: "string \<Rightarrow> string" where
  "normpath path =
     (if path = [] then ''.''
      else
        let initial_slashes =
              (if startswith path [sep]
               then (if startswith path [sep, sep] \<and> \<not> startswith path [sep, sep, sep]
                     then 2 else 1)
               else (0::nat));
            comps = normpath_loop initial_slashes (str_split sep path) [];
            joined = str_join [sep] comps;
            path' = (if initial_slashes \<noteq> 0 then replicate initial_slashes sep @ joined
                     else joined)
        in if path' = [] then ''.'' else path')"

text \<open>\<open>os.path.abspath\<close>; the working directory \<open>os.getcwd()\<close> is the parameter \<open>cwd\<close>.\<close>

definition abspath :: "string \<Rightarrow> string \<Rightarrow> string" where
  "abspath cwd path =
     (if \<not> isabs path then normpath (path_join cwd path) else normpath path)"

text \<open>\<open>os.path.relpath(path, start)\<close>. It raises \<open>ValueError\<close> on an empty path.
  \<open>commonprefix\<close> of two component lists is their longest common prefix.\<close>

definition relpath :: "string \<Rightarrow> string \<Rightarrow> string \<Rightarrow> py_error + string" where
  "relpath cwd path start =
     (if path = [] then Inl ValueError
      else
        let start_list = filter (\<lambda>x. x \<noteq> []) (str_split sep (abspath cwd start));
            path_list = filter (\<lambda>x. x \<noteq> []) (str_split sep (abspath cwd path));
            i = length (longest_common_prefix start_list path_list);
            rel_list = replicate (length start_list - i) pardir @ drop i path_list
        in (case rel_list of [] \<Rightarrow> Inr curdir | a # p \<Rightarrow> Inr (path_join_list a p)))"

section \<open>The static lists of \<open>export_tarball.py\<close>\<close>

definition nonessential_dirs :: "string list" where
  "nonessential_dirs =
    [''third_party/blink/tools'',
     ''third_party/blink/web_tests'',
     ''third_party/hunspell_dictionaries'',
     ''third_party/hunspell/tests'',
     ''third_party/jdk/current'',
     ''third_party/jdk/extras'',
     ''third_party/liblouis/src/tests/braille-specs'',
     ''third_party/xdg-utils/tests'',
     ''v8/test'']
    @
    [''android_webview'',
     ''build/linux/debian_bullseye_amd64-sysroot'',
     ''build/linux/debian_bullseye_i386-sysroot'',
     ''buildtools/reclient'',
     ''chrome/android'',
     ''chromecast'',
     ''ios'',
     ''native_client'',
     ''native_client_sdk'',
     ''third_party/android_platform'',
     ''third_party/angle/third_party/VK-GL-CTS'',
     ''third_party/apache-linux'',
     ''third_party/catapult/third_party/vinn/third_party/v8'',
     ''third_party/closure_compiler'',
     ''third_party/instrumented_libs'',
     ''third_party/llvm'',
     ''third_party/llvm-build'',
     ''third_party/llvm-build-tools'',
     ''third_party/node/linux'',
     ''third_party/rust-src'',
     ''third_party/rust-toolchain'',
     ''third_party/webgl'']"

definition ESSENTIAL_FILES :: "string list" where
  "ESSENTIAL_FILES =
    [''chrome/test/data/webui/i18n_process_css_test.html'',
     ''chrome/test/data/webui/mojo/foobar.mojom'',
     ''v8/test/torque/test-torque.tq'']"

definition ESSENTIAL_GIT_DIRS :: "string list" where
  "ESSENTIAL_GIT_DIRS = [''third_party/rust-src/'']"

definition TEST_DIRS :: "string list" where
  "TEST_DIRS =
    [''base/tracing/test/data'',
     ''chrome/test/data'',
     ''components/test/data'',
     ''content/test/data/accessibility'',
     ''content/test/data/gpu'',
     ''content/test/data/media'',
     ''courgette/testdata'',
     ''extensions/test/data'',
     ''media/test/data'',
     ''native_client/src/trusted/service_runtime/testdata'',
     ''testing/libfuzzer/fuzzers/wasm_corpus'',
     ''third_party/blink/perf_tests'',
     ''third_party/breakpad/breakpad/src/processor/testdata'',
     ''third_party/catapult/tracing/test_data'',
     ''third_party/dawn/test'',
     ''third_party/expat/src/testdata'',
     ''third_party/harfbuzz-ng/src/test'',
     ''third_party/llvm/llvm/test'',
     ''third_party/ots/src/tests/fonts'',
     ''third_party/rust-src/src/gcc/gcc/testsuite'',
     ''third_party/rust-src/src/llvm-project/clang/test'',
     ''third_party/rust-src/src/llvm-project/llvm/test'',
     ''third_party/screen-ai/linux/resources'',
     ''third_party/sqlite/src/test'',
     ''third_party/swiftshader/tests/regres'',
     ''third_party/test_fonts/test_fonts'',
     ''tools/perf/testdata'']"

section \<open>The pattern of build-critical file names\<close>

text \<open>
  \<open>re.search(r'\.(gn|gni|grd|grdp|isolate|pydeps)(\.\S+)?$', file_name)\<close>.
  \<open>$\<close> matches at the end of the string and before a newline that ends the string.
  \<open>\S+\<close> is greedy, and only its longest run can be followed by \<open>$\<close>, because the
  newline is itself white space. The search tries every start position.
\<close>

definition pattern_exts :: "string list" where
  "pattern_exts = [''gn'', ''gni'', ''grd'', ''grdp'', ''isolate'', ''pydeps'']"

definition match_end :: "string \<Rightarrow> bool" where
  "match_end r \<longleftrightarrow> r = [] \<or> r = [CHR 0x0A]"

definition match_tail :: "string \<Rightarrow> bool" where
  "match_tail r \<longleftrightarrow>
     match_end r \<or>
     (case r of [] \<Rightarrow> False
      | c # w \<Rightarrow> c = CHR ''.'' \<and> takeWhile (\<lambda>x. \<not> isspace x) w \<noteq> []
                 \<and> match_end (dropWhile (\<lambda>x. \<not> isspace x) w))"

definition match_here :: "string \<Rightarrow> bool" where
  "match_here s \<longleftrightarrow>
     list_ex (\<lambda>ext. startswith s (CHR ''.'' # ext) \<and> match_tail (drop (Suc (length ext)) s))
       pattern_exts"

fun re_search :: "string \<Rightarrow> bool" where
  "re_search [] = match_here []"
| "re_search (c # cs) = (match_here (c # cs) \<or> re_search cs)"

section \<open>The archive filter: the guards of \<open>MyTarFile.add\<close>\<close>

text \<open>The attributes that \<open>main\<close> sets on the archive object.\<close>

record MyTarFile =
  self_remove_nonessential_files :: bool
  self_verbose :: bool
  self_src_dir :: string
  self_mtime :: int

text \<open>What \<open>os.path.islink\<close>, \<open>exists\<close>, \<open>isfile\<close> and \<open>isdir\<close> answer for one path.
  \<open>exists\<close>, \<open>isfile\<close> and \<open>isdir\<close> follow symbolic links.\<close>

record path_facts =
  islink :: bool
  exists :: bool
  isfile :: bool
  isdir :: bool

datatype decision = Skip | Keep

definition keep_file :: "string \<Rightarrow> string \<Rightarrow> bool" where
  "keep_file file_name rel_name \<longleftrightarrow> re_search file_name \<or> rel_name \<in> set ESSENTIAL_FILES"

definition under_listed_dir :: "string \<Rightarrow> bool" where
  "under_listed_dir rel_name \<longleftrightarrow>
     (\<exists>path \<in> set nonessential_dirs \<union> set TEST_DIRS.
        rel_name = path \<or> startswith rel_name (path @ ''/''))"

text \<open>
  The part of \<open>MyTarFile.add\<close> before the call of \<open>tarfile.TarFile.add\<close>: \<open>Skip\<close> is a
  return through \<open>__report_skipped\<close>, \<open>Keep\<close> reaches \<open>__report_added\<close>. The first
  statement raises when \<open>relpath\<close> does.
\<close>

definition add_decision ::
  "MyTarFile \<Rightarrow> string \<Rightarrow> string \<Rightarrow> path_facts \<Rightarrow> py_error + decision" where
  "add_decision self cwd name facts =
     (case relpath cwd name (self_src_dir self) of
        Inl e \<Rightarrow> Inl e
      | Inr rel_name \<Rightarrow>
          (let (file_path, file_name) = path_split name in
           if islink facts \<and> \<not> exists facts then Inr Skip
           else if file_name = ''__pycache__'' \<or> endswith file_name ''.pyc'' then Inr Skip
           else if file_name \<in> set [''.svn'', ''out''] \<and> \<not> str_in ''node_modules'' file_path
             then Inr Skip
           else if file_name = ''.git''
                   \<and> \<not> list_ex (\<lambda>essential. startswith rel_name essential) ESSENTIAL_GIT_DIRS
             then Inr Skip
           else if self_remove_nonessential_files self \<and> str_in ''ChangeLog'' name
             then Inr Skip
           else if self_remove_nonessential_files self \<and> \<not> keep_file file_name rel_name
                   \<and> under_listed_dir rel_name \<and> (isfile facts \<or> islink facts)
             then Inr Skip
           else Inr Keep))"

section \<open>The metadata normalizer: \<open>MyTarFile.__filter\<close>\<close>

text \<open>
  A \<open>tarfile.TarInfo\<close> object. \<open>tname\<close>, \<open>tsize\<close> and \<open>ttype\<close> are its attributes
  \<open>name\<close>, \<open>size\<close> and \<open>type\<close>; the record is extensible, and its \<open>more\<close> part stands
  for the attributes not listed here (\<open>devmajor\<close>, \<open>pax_headers\<close> and the others).
\<close>

datatype ftype = REGTYPE | LNKTYPE | SYMTYPE | CHRTYPE | BLKTYPE | DIRTYPE | FIFOTYPE

record TarInfo =
  tname :: string
  mode :: int
  uid :: int
  gid :: int
  tsize :: int
  mtime :: int
  ttype :: ftype
  linkname :: string
  uname :: string
  gname :: string

text \<open>\<open>stat.S_IWUSR\<close> is \<open>0o200\<close>.\<close>

definition S_IWUSR :: int where
  "S_IWUSR = 128"

definition MyTarFile_filter :: "MyTarFile \<Rightarrow> 'a TarInfo_scheme \<Rightarrow> 'a TarInfo_scheme" where
  "MyTarFile_filter self tar_info =
     tar_info\<lparr>mtime := self_mtime self,
              mode := mode tar_info OR S_IWUSR,
              uid := 0,
              gid := 0,
              uname := ''0'',
              gname := ''0''\<rparr>"

section \<open>Adding a tree to the archive\<close>

text \<open>
  The file system as the traversal sees it. A node holds the answers of \<open>os.path\<close>
  for its path, what \<open>gettarinfo\<close> makes of \<open>os.lstat\<close> there (\<open>Inl\<close> when \<open>lstat\<close>
  raises, \<open>Inr None\<close> for a file type that \<open>tarfile\<close> does not archive), whether
  opening the file or listing the directory raises, and the directory entries in the
  order of \<open>sorted(os.listdir(name))\<close>.
\<close>

datatype node =
  Node (node_facts: path_facts) (node_lstat: "py_error + TarInfo option")
       (node_unreadable: bool) (node_entries: "(string \<times> node) list")

text \<open>The state of a run: the lines printed, the members written to the archive, and
  the exception that is propagating, if any.\<close>

record tar_state =
  stdout :: "string list"
  members :: "TarInfo list"
  raised :: "py_error option"

definition print :: "string \<Rightarrow> tar_state \<Rightarrow> tar_state" where
  "print line st = st\<lparr>stdout := stdout st @ [line]\<rparr>"

definition raise :: "py_error \<Rightarrow> tar_state \<Rightarrow> tar_state" where
  "raise e st = st\<lparr>raised := Some e\<rparr>"

definition addfile :: "TarInfo \<Rightarrow> tar_state \<Rightarrow> tar_state" where
  "addfile tarinfo st = st\<lparr>members := members st @ [tarinfo]\<rparr>"

definition report_skipped :: "MyTarFile \<Rightarrow> string \<Rightarrow> tar_state \<Rightarrow> tar_state" where
  "report_skipped self name st =
     (if self_verbose self then print (''D'' @ [CHR 0x09] @ name) st else st)"

definition report_added :: "MyTarFile \<Rightarrow> string \<Rightarrow> tar_state \<Rightarrow> tar_state" where
  "report_added self name st =
     (if self_verbose self then print (''A'' @ [CHR 0x09] @ name) st else st)"

text \<open>\<open>gettarinfo(name, arcname)\<close>: the member name is \<open>arcname\<close> without leading
  separators.\<close>

definition gettarinfo :: "node \<Rightarrow> string \<Rightarrow> py_error + TarInfo option" where
  "gettarinfo nd arcname =
     (case node_lstat nd of
        Inl e \<Rightarrow> Inl e
      | Inr None \<Rightarrow> Inr None
      | Inr (Some tarinfo) \<Rightarrow> Inr (Some (tarinfo\<lparr>tname := lstrip sep arcname\<rparr>)))"

text \<open>
  \<open>add\<close> is \<open>MyTarFile.add\<close>; \<open>TarFile_add\<close> is \<open>tarfile.TarFile.add\<close> called with
  \<open>filter=self.__filter\<close>, whose recursion goes back to \<open>MyTarFile.add\<close>;
  \<open>add_entries\<close> is its loop over the directory entries, which an exception leaves.
\<close>

function (sequential) add :: "MyTarFile \<Rightarrow> string \<Rightarrow> string \<Rightarrow> string \<Rightarrow> node \<Rightarrow> tar_state \<Rightarrow> tar_state"
and TarFile_add ::
  "MyTarFile \<Rightarrow> string \<Rightarrow> string \<Rightarrow> string \<Rightarrow> node \<Rightarrow> tar_state \<Rightarrow> tar_state"
and add_entries ::
  "MyTarFile \<Rightarrow> string \<Rightarrow> string \<Rightarrow> string \<Rightarrow> (string \<times> node) list \<Rightarrow> tar_state \<Rightarrow> tar_state"
where
  "add self cwd name arcname nd st =
     (case add_decision self cwd name (node_facts nd) of
        Inl e \<Rightarrow> raise e st
      | Inr Skip \<Rightarrow> report_skipped self name st
      | Inr Keep \<Rightarrow> TarFile_add self cwd name arcname nd (report_added self name st))"
| "TarFile_add self cwd name arcname (Node fcts ls unr entries) st =
     (case gettarinfo (Node fcts ls unr entries) arcname of
        Inl e \<Rightarrow> raise e st
      | Inr None \<Rightarrow> st
      | Inr (Some tarinfo0) \<Rightarrow>
          (let tarinfo = MyTarFile_filter self tarinfo0 in
           if ttype tarinfo = REGTYPE then
             (if unr then raise OSError st else addfile tarinfo st)
           else if ttype tarinfo = DIRTYPE then
             (if unr then raise OSError (addfile tarinfo st)
              else add_entries self cwd name arcname entries (addfile tarinfo st))
           else addfile tarinfo st))"
| "add_entries self cwd name arcname [] st = st"
| "add_entries self cwd name arcname ((f, nd) # rest) st =
     (if raised st \<noteq> None then st
      else add_entries self cwd name arcname rest
             (add self cwd (path_join name f) (path_join arcname f) nd st))"
  by pat_completeness auto

termination
  by (relation "measure (\<lambda>x. case x of
          Inl (self, cwd, name, arcname, nd, st) \<Rightarrow> 2 * size nd + 1
        | Inr (Inl (self, cwd, name, arcname, nd, st)) \<Rightarrow> 2 * size nd
        | Inr (Inr (self, cwd, name, arcname, entries, st)) \<Rightarrow>
            2 * size_list (size_prod (\<lambda>_. 0) size) entries + 1)")
     auto

section \<open>\<open>main\<close>\<close>

text \<open>
  The parsed command line: \<open>options\<close> as \<open>optparse\<close> returns them (an option that was
  not given is \<open>None\<close>, a flag is a truth value) and the positional arguments. The
  model starts where \<open>parse_args\<close> has returned; a command line on which \<open>optparse\<close>
  itself ends the process is not a run of \<open>main\<close> here.
\<close>

record options =
  opt_basename :: "string option"
  opt_remove_nonessential_files :: bool
  opt_test_data :: bool
  opt_xz :: bool
  opt_verbose :: bool
  opt_progress :: bool
  opt_src_dir :: "string option"
  opt_version :: "string option"

text \<open>
  What the run finds outside: the working directory, the file system (a path that
  does not exist has a node whose facts are all false and whose \<open>lstat\<close> raises),
  whether opening the output file, starting \<open>xz\<close> or closing the archive raises, the
  outcome of reading \<open>build/util/LASTCHANGE.committime\<close> with \<open>int(f.read())\<close>, and
  the exit status that \<open>xz.wait()\<close> returns.
\<close>

record environment =
  getcwd :: string
  fs :: "string \<Rightarrow> node"
  open_tarball :: "py_error option"
  popen_xz :: "py_error option"
  committime :: "py_error + int"
  close_archive :: "py_error option"
  xz_wait :: int

text \<open>The outcome of a run: the lines printed, the members written to the archive,
  and the value returned (\<open>Inr\<close>) or the exception raised (\<open>Inl\<close>).\<close>

record run =
  printed :: "string list"
  archive :: "TarInfo list"
  result :: "py_error + int"

text \<open>Truth of a string option: \<open>None\<close> and the empty string are false.\<close>

definition truthy :: "string option \<Rightarrow> bool" where
  "truthy v \<longleftrightarrow> (case v of None \<Rightarrow> False | Some s \<Rightarrow> s \<noteq> [])"

text \<open>The loop over \<open>TEST_DIRS\<close> in test-data mode.\<close>

fun add_test_dirs ::
  "MyTarFile \<Rightarrow> environment \<Rightarrow> string \<Rightarrow> string \<Rightarrow> string list \<Rightarrow> tar_state \<Rightarrow> tar_state"
where
  "add_test_dirs self env src output_basename [] st = st"
| "add_test_dirs self env src output_basename (directory # rest) st =
     (if raised st \<noteq> None then st
      else
        let test_dir = path_join src directory in
        if \<not> isdir (node_facts (fs env test_dir))
        then add_test_dirs self env src output_basename rest
               (print ([CHR 0x22] @ test_dir @ [CHR 0x22] @ '' not present; skipping.'') st)
        else add_test_dirs self env src output_basename rest
               (add self (getcwd env) test_dir (path_join output_basename directory)
                  (fs env test_dir) st))"

text \<open>The \<open>try\<close> statement of \<open>main\<close>: the archive is filled from the test data
  directories or from the source directory, and \<open>archive.close()\<close> runs in the
  \<open>finally\<close> clause, whether or not an exception is propagating.\<close>

definition write_archive ::
  "MyTarFile \<Rightarrow> options \<Rightarrow> environment \<Rightarrow> string \<Rightarrow> string \<Rightarrow> tar_state" where
  "write_archive self options env src output_basename =
     (let st0 = \<lparr>stdout = [], members = [], raised = None\<rparr>;
          st1 = (if opt_test_data options
                 then add_test_dirs self env src output_basename TEST_DIRS st0
                 else add self (getcwd env) src output_basename (fs env src) st0)
      in (case close_archive env of
            Some e \<Rightarrow> raise e st1
          | None \<Rightarrow> st1))"

definition main :: "options \<Rightarrow> string list \<Rightarrow> environment \<Rightarrow> run" where
  "main options args env =
     (case args of
        [arg0] \<Rightarrow>
          if \<not> truthy (opt_version options) then
            \<lparr>printed = [''A version number must be provided via the --version option.''],
             archive = [], result = Inr 1\<rparr>
          else
            (case opt_src_dir options of
               None \<Rightarrow> \<lparr>printed = [], archive = [], result = Inl TypeError\<rparr>
             | Some src \<Rightarrow>
                 if \<not> exists (node_facts (fs env src)) then
                   \<lparr>printed = [''Cannot find the src directory '' @ src],
                    archive = [], result = Inr 1\<rparr>
                 else
                   let output_basename =
                         (case opt_basename options of
                            None \<Rightarrow> basename arg0
                          | Some b \<Rightarrow> if b \<noteq> [] then b else basename arg0)
                   in
                   (case open_tarball env of
                      Some e \<Rightarrow> \<lparr>printed = [], archive = [], result = Inl e\<rparr>
                    | None \<Rightarrow>
                   (case popen_xz env of
                      Some e \<Rightarrow> \<lparr>printed = [], archive = [], result = Inl e\<rparr>
                    | None \<Rightarrow>
                   (case committime env of
                      Inl e \<Rightarrow> \<lparr>printed = [], archive = [], result = Inl e\<rparr>
                    | Inr timestamp \<Rightarrow>
                        let self = \<lparr>self_remove_nonessential_files =
                                      opt_remove_nonessential_files options,
                                    self_verbose = opt_verbose options,
                                    self_src_dir = src,
                                    self_mtime = timestamp\<rparr>;
                            st = write_archive self options env src output_basename
                        in
                        (case raised st of
                           Some e \<Rightarrow>
                             \<lparr>printed = stdout st, archive = members st, result = Inl e\<rparr>
                         | None \<Rightarrow>
                             if xz_wait env \<noteq> 0 then
                               \<lparr>printed = stdout st @ [''xz -9 failed!''],
                                archive = members st, result = Inr 1\<rparr>
                             else
                               \<lparr>printed = stdout st, archive = members st,
                                result = Inr 0\<rparr>)))))
      | _ \<Rightarrow>
          \<lparr>printed = [''You must provide only one argument: output file name'',
                     ''(without .tar.xz extension).''],
           archive = [], result = Inr 1\<rparr>)"

section \<open>Two file systems that differ in stored ownership and times only\<close>

text \<open>
  \<open>forget_stored\<close> overwrites, in every node of a tree, the owner, the group, their
  names and the modification time that \<open>lstat\<close> reports. Two trees with the same image
  have the same names, kinds, sizes, link targets and permission bits, and differ at
  most in what the file system stores about owners and times.
\<close>

fun forget_stored :: "node \<Rightarrow> node"
and forget_stored_entries :: "(string \<times> node) list \<Rightarrow> (string \<times> node) list" where
  "forget_stored (Node fcts ls unr entries) =
     Node fcts
       (case ls of
          Inl e \<Rightarrow> Inl e
        | Inr None \<Rightarrow> Inr None
        | Inr (Some tarinfo) \<Rightarrow>
            Inr (Some (tarinfo\<lparr>uid := 0, gid := 0, uname := [], gname := [], mtime := 0\<rparr>)))
       unr (forget_stored_entries entries)"
| "forget_stored_entries [] = []"
| "forget_stored_entries ((f, nd) # rest) = (f, forget_stored nd) # forget_stored_entries rest"

text \<open>The values that \<open>__filter\<close> assigns, as a property of a member.\<close>

abbreviation normalized :: "MyTarFile \<Rightarrow> TarInfo \<Rightarrow> bool" where
  "normalized self tarinfo \<equiv>
     mtime tarinfo = self_mtime self \<and> uid tarinfo = 0 \<and> gid tarinfo = 0
     \<and> uname tarinfo = ''0'' \<and> gname tarinfo = ''0'' \<and> bit (mode tarinfo) 7"

section \<open>A tree that can be read\<close>


section \<open>Facts about the path functions and the filter\<close>

lemma relpath_returns: "name \<noteq> [] \<Longrightarrow> \<exists>rel. relpath cwd name start = Inr rel"
  by (simp add: relpath_def Let_def split: list.split)

lemma path_split_pair:
  "snd (path_split name) = file_name \<Longrightarrow> path_split name = (fst (path_split name), file_name)"
  by (metis prod.collapse)

text \<open>The chain of guards, once \<open>rel_name\<close>, \<open>file_path\<close> and \<open>file_name\<close> are known.\<close>

lemma add_decision_unfold:
  assumes "relpath cwd name (self_src_dir self) = Inr rel_name"
    and "path_split name = (file_path, file_name)"
  shows "add_decision self cwd name facts =
     (if islink facts \<and> \<not> exists facts then Inr Skip
      else if file_name = ''__pycache__'' \<or> endswith file_name ''.pyc'' then Inr Skip
      else if file_name \<in> set [''.svn'', ''out''] \<and> \<not> str_in ''node_modules'' file_path
        then Inr Skip
      else if file_name = ''.git''
              \<and> \<not> list_ex (\<lambda>essential. startswith rel_name essential) ESSENTIAL_GIT_DIRS
        then Inr Skip
      else if self_remove_nonessential_files self \<and> str_in ''ChangeLog'' name
        then Inr Skip
      else if self_remove_nonessential_files self \<and> \<not> keep_file file_name rel_name
              \<and> under_listed_dir rel_name \<and> (isfile facts \<or> islink facts)
        then Inr Skip
      else Inr Keep)"
  using assms by (simp add: add_decision_def)

text \<open>A skipped entry leaves the archive as it was: \<open>add\<close> only reports it.\<close>

lemma add_skipped:
  "add_decision self cwd name (node_facts nd) = Inr Skip \<Longrightarrow>
   add self cwd name arcname nd st = report_skipped self name st"
  by simp

lemma bit_S_IWUSR: "bit S_IWUSR n \<longleftrightarrow> n = 7"
proof -
  have "bit (2 ^ 7 :: int) n \<longleftrightarrow> n = 7"
    unfolding bit_exp_iff by auto
  moreover have "S_IWUSR = 2 ^ 7"
    by (simp add: S_IWUSR_def)
  ultimately show ?thesis
    by (simp only:)
qed

lemma if_cond_eq: "(a \<longleftrightarrow> b) \<Longrightarrow> (if a then x else y) = (if b then x else y)"
  by simp

text \<open>The guards as one disjunction.\<close>

lemma add_decision_flat:
  assumes "relpath cwd name (self_src_dir self) = Inr rel_name"
    and "path_split name = (file_path, file_name)"
  shows "add_decision self cwd name facts =
     (if (islink facts \<and> \<not> exists facts)
         \<or> (file_name = ''__pycache__'' \<or> endswith file_name ''.pyc'')
         \<or> (file_name \<in> set [''.svn'', ''out''] \<and> \<not> str_in ''node_modules'' file_path)
         \<or> (file_name = ''.git''
             \<and> \<not> list_ex (\<lambda>essential. startswith rel_name essential) ESSENTIAL_GIT_DIRS)
         \<or> (self_remove_nonessential_files self \<and> str_in ''ChangeLog'' name)
         \<or> (self_remove_nonessential_files self \<and> \<not> keep_file file_name rel_name
             \<and> under_listed_dir rel_name \<and> (isfile facts \<or> islink facts))
      then Inr Skip else Inr Keep)"
  unfolding add_decision_unfold [OF assms] by (simp only: if_not_P if_P split: if_split) blast

text \<open>When the pattern of build-critical names matches: a name that ends in a dot, one of
  the six extensions and, optionally, a further dot and a run of characters that are
  not white space.\<close>

lemma re_search_here: "match_here s \<Longrightarrow> re_search s"
  by (cases s) simp_all

lemma re_search_append: "re_search t \<Longrightarrow> re_search (s @ t)"
  by (induction s) simp_all

lemma match_tail_dotted:
  assumes "w \<noteq> []" and "list_all (\<lambda>c. \<not> isspace c) w"
  shows "match_tail (CHR ''.'' # w)"
proof -
  have tw: "takeWhile (\<lambda>x. \<not> isspace x) w = w"
    using assms(2) unfolding list_all_iff by (rule takeWhile_eq_all_conv [THEN iffD2])
  have dw: "dropWhile (\<lambda>x. \<not> isspace x) w = []"
    using assms(2) unfolding list_all_iff by (rule dropWhile_eq_Nil_conv [THEN iffD2])
  show ?thesis
    unfolding match_tail_def list.case tw dw using assms(1) by (simp add: match_end_def)
qed

lemma match_here_ext:
  assumes "ext \<in> set pattern_exts" and "match_tail extra"
  shows "match_here (CHR ''.'' # ext @ extra)"
  unfolding match_here_def list_ex_iff
  using assms by (intro bexI [of _ ext]) (simp_all add: startswith_def)

lemma re_search_ext:
  assumes "ext \<in> set pattern_exts"
    and "extra = [] \<or> (extra = CHR ''.'' # w \<and> w \<noteq> [] \<and> list_all (\<lambda>c. \<not> isspace c) w)"
  shows "re_search (stem @ CHR ''.'' # ext @ extra)"
proof -
  from assms(2) have "match_tail extra"
  proof
    assume "extra = []"
    then show ?thesis by (simp add: match_tail_def match_end_def)
  next
    assume a: "extra = CHR ''.'' # w \<and> w \<noteq> [] \<and> list_all (\<lambda>c. \<not> isspace c) w"
    then have e: "extra = CHR ''.'' # w" and n: "w \<noteq> []"
      and l: "list_all (\<lambda>c. \<not> isspace c) w"
      by blast+
    from n l have "match_tail (CHR ''.'' # w)" by (rule match_tail_dotted)
    with e show ?thesis by (simp only:)
  qed
  with assms(1) have "match_here (CHR ''.'' # ext @ extra)"
    by (rule match_here_ext)
  then have "re_search (CHR ''.'' # ext @ extra)"
    by (rule re_search_here)
  then show ?thesis
    by (rule re_search_append)
qed

lemma re_search_special:
  "\<not> re_search ''__pycache__''" "\<not> re_search ''.svn''" "\<not> re_search ''out''" "\<not> re_search ''.git''"
  by code_simp+

text \<open>A component of a path occurs in it as a substring.\<close>

lemma split_head_prefix: "str_split c s = v # vs \<Longrightarrow> prefix v s"
  by (induction s arbitrary: v vs) (auto split: if_splits list.splits)

lemma component_is_substring: "w \<in> set (str_split c s) \<Longrightarrow> sublist w s"
proof (induction s arbitrary: w)
  case Nil
  then show ?case by simp
next
  case (Cons x xs)
  show ?case
  proof (cases "x = c")
    case True
    with Cons.prems have "w = [] \<or> w \<in> set (str_split c xs)"
      by simp
    then show ?thesis
    proof
      assume "w = []"
      then show ?thesis by simp
    next
      assume "w \<in> set (str_split c xs)"
      then have "sublist w xs" by (rule Cons.IH)
      then show ?thesis by (simp add: sublist_Cons_right)
    qed
  next
    case False
    show ?thesis
    proof (cases "str_split c xs")
      case Nil
      with False Cons.prems show ?thesis by simp
    next
      case (Cons v vs)
      with False Cons.prems have "w = x # v \<or> w \<in> set vs" by simp
      then show ?thesis
      proof
        assume "w = x # v"
        moreover from Cons have "prefix v xs" by (rule split_head_prefix)
        ultimately show ?thesis by (simp add: sublist_Cons_right)
      next
        assume "w \<in> set vs"
        with Cons have "w \<in> set (str_split c xs)" by simp
        then have "sublist w xs" by (rule Cons.IH)
        then show ?thesis by (simp add: sublist_Cons_right)
      qed
    qed
  qed
qed

section \<open>Broken symbolic links\<close>

text \<open>
  Claim C5. An entry that is a symbolic link whose target does not exist is dropped,
  whatever the attributes of the archive object are (so for both values of the
  size-reduction flag), whatever its name is and whatever the other facts about it
  are: no other rule is consulted before this one. The entry is reported as skipped
  and nothing is written for it. The name of an entry is not the empty string, for
  which \<open>relpath\<close> raises before any rule is looked at.
\<close>

theorem broken_symlink_dropped:
  assumes "islink (node_facts nd)" and "\<not> exists (node_facts nd)" and "name \<noteq> []"
  shows "add_decision self cwd name (node_facts nd) = Inr Skip
         \<and> add self cwd name arcname nd st = report_skipped self name st"
proof -
  from assms(3) obtain rel where "relpath cwd name (self_src_dir self) = Inr rel"
    using relpath_returns by blast
  with assms(1,2) have "add_decision self cwd name (node_facts nd) = Inr Skip"
    by (simp add: add_decision_def split: prod.split)
  then show ?thesis
    by (simp only: add_skipped simp_thms)
qed

theorem broken_symlink_dropped_witness:
  "add_decision
     \<lparr>self_remove_nonessential_files = False, self_verbose = True,
      self_src_dir = ''/src'', self_mtime = 1700000000\<rparr>
     ''/'' ''/src/tools/dangling.gn''
     \<lparr>islink = True, exists = False, isfile = False, isdir = False\<rparr> = Inr Skip
   \<and> add
     \<lparr>self_remove_nonessential_files = False, self_verbose = True,
      self_src_dir = ''/src'', self_mtime = 1700000000\<rparr>
     ''/'' ''/src/tools/dangling.gn'' ''chromium/tools/dangling.gn''
     (Node \<lparr>islink = True, exists = False, isfile = False, isdir = False\<rparr> (Inl OSError)
        False [])
     \<lparr>stdout = [], members = [], raised = None\<rparr>
   = \<lparr>stdout = [''D'' @ [CHR 0x09] @ ''/src/tools/dangling.gn''], members = [],
      raised = None\<rparr>"
  using broken_symlink_dropped
    [of "Node \<lparr>islink = True, exists = False, isfile = False, isdir = False\<rparr> (Inl OSError)
           False []"
        "''/src/tools/dangling.gn''"
        "\<lparr>self_remove_nonessential_files = False, self_verbose = True,
          self_src_dir = ''/src'', self_mtime = 1700000000\<rparr>"
        "''/''" "''chromium/tools/dangling.gn''"
        "\<lparr>stdout = [], members = [], raised = None\<rparr>"]
  by (simp add: report_skipped_def print_def)

section \<open>Git metadata\<close>

text \<open>
  Claim C4. An entry whose base name is \<open>.git\<close> and whose path relative to the source
  root starts with none of \<open>ESSENTIAL_GIT_DIRS\<close> is dropped, for every archive object
  (so for both values of the size-reduction flag) and whatever kind of entry it is.
  The test-data flag is not an input of the filter: it only selects the roots that
  \<open>main\<close> hands to \<open>add\<close>. The entry is reported as skipped and nothing is written.
\<close>

theorem git_dropped:
  assumes "snd (path_split name) = ''.git''"
    and "relpath cwd name (self_src_dir self) = Inr rel_name"
    and "\<not> list_ex (\<lambda>essential. startswith rel_name essential) ESSENTIAL_GIT_DIRS"
  shows "add_decision self cwd name (node_facts nd) = Inr Skip
         \<and> add self cwd name arcname nd st = report_skipped self name st"
proof -
  have "path_split name = (fst (path_split name), ''.git'')"
    using assms(1) by (rule path_split_pair)
  from add_decision_unfold [OF assms(2) this] assms(3)
  have "add_decision self cwd name (node_facts nd) = Inr Skip"
    by simp
  then show ?thesis
    by (simp only: add_skipped simp_thms)
qed

theorem git_dropped_witness:
  "snd (path_split ''/src/third_party/skia/.git'') = ''.git''
   \<and> relpath ''/'' ''/src/third_party/skia/.git'' ''/src'' = Inr ''third_party/skia/.git''
   \<and> \<not> list_ex (\<lambda>essential. startswith ''third_party/skia/.git'' essential) ESSENTIAL_GIT_DIRS
   \<and> add_decision
       \<lparr>self_remove_nonessential_files = True, self_verbose = False,
        self_src_dir = ''/src'', self_mtime = 1700000000\<rparr>
       ''/'' ''/src/third_party/skia/.git''
       \<lparr>islink = False, exists = True, isfile = False, isdir = True\<rparr> = Inr Skip
   \<and> add_decision
       \<lparr>self_remove_nonessential_files = False, self_verbose = False,
        self_src_dir = ''/src'', self_mtime = 1700000000\<rparr>
       ''/'' ''/src/third_party/skia/.git''
       \<lparr>islink = False, exists = True, isfile = False, isdir = True\<rparr> = Inr Skip"
proof -
  let ?nd = "Node \<lparr>islink = False, exists = True, isfile = False, isdir = True\<rparr>
               (Inl OSError) False []"
  have h1: "snd (path_split ''/src/third_party/skia/.git'') = ''.git''"
    by code_simp
  have h2: "relpath ''/'' ''/src/third_party/skia/.git'' ''/src'' = Inr ''third_party/skia/.git''"
    by code_simp
  have h3: "\<not> list_ex (\<lambda>essential. startswith ''third_party/skia/.git'' essential)
              ESSENTIAL_GIT_DIRS"
    by code_simp
  have on: "relpath ''/'' ''/src/third_party/skia/.git''
      (self_src_dir \<lparr>self_remove_nonessential_files = True, self_verbose = False,
        self_src_dir = ''/src'', self_mtime = 1700000000\<rparr>) = Inr ''third_party/skia/.git''"
    using h2 by simp
  have off: "relpath ''/'' ''/src/third_party/skia/.git''
      (self_src_dir \<lparr>self_remove_nonessential_files = False, self_verbose = False,
        self_src_dir = ''/src'', self_mtime = 1700000000\<rparr>) = Inr ''third_party/skia/.git''"
    using h2 by simp
  show ?thesis
    using h1 h2 h3 git_dropped [OF h1 on h3, of ?nd] git_dropped [OF h1 off h3, of ?nd]
    by simp
qed

section \<open>What the normalizer leaves alone\<close>

text \<open>
  Claim C10. \<open>__filter\<close> returns the record with \<open>name\<close>, \<open>size\<close>, \<open>type\<close>, \<open>linkname\<close> and
  every attribute outside the ten named ones unchanged; only \<open>mtime\<close>, \<open>mode\<close>, \<open>uid\<close>,
  \<open>gid\<close>, \<open>uname\<close> and \<open>gname\<close> are assigned. The new mode has exactly the bits of the
  old one and bit 7, the owner-write bit \<open>0o200\<close>: every permission bit that was set
  stays set, and no other bit appears.
\<close>

theorem filter_frame:
  "tname (MyTarFile_filter self t) = tname t
   \<and> tsize (MyTarFile_filter self t) = tsize t
   \<and> ttype (MyTarFile_filter self t) = ttype t
   \<and> linkname (MyTarFile_filter self t) = linkname t
   \<and> TarInfo.more (MyTarFile_filter self t) = TarInfo.more t
   \<and> mode (MyTarFile_filter self t) = mode t OR S_IWUSR
   \<and> (\<forall>n. bit (mode (MyTarFile_filter self t)) n \<longleftrightarrow> bit (mode t) n \<or> n = 7)"
  by (simp add: MyTarFile_filter_def bit_or_iff bit_S_IWUSR)

theorem filter_frame_witness:
  "tname (MyTarFile_filter
      \<lparr>self_remove_nonessential_files = True, self_verbose = False,
       self_src_dir = ''/src'', self_mtime = 1700000000\<rparr>
      \<lparr>tname = ''chromium/BUILD.gn'', mode = 292, uid = 1000, gid = 100, tsize = 42,
       mtime = 1234567, ttype = REGTYPE, linkname = [], uname = ''dev'',
       gname = ''users''\<rparr>) = ''chromium/BUILD.gn''
   \<and> bit (mode (MyTarFile_filter
      \<lparr>self_remove_nonessential_files = True, self_verbose = False,
       self_src_dir = ''/src'', self_mtime = 1700000000\<rparr>
      \<lparr>tname = ''chromium/BUILD.gn'', mode = 292, uid = 1000, gid = 100, tsize = 42,
       mtime = 1234567, ttype = REGTYPE, linkname = [], uname = ''dev'',
       gname = ''users''\<rparr>)) 7"
proof -
  let ?self = "\<lparr>self_remove_nonessential_files = True, self_verbose = False,
                self_src_dir = ''/src'', self_mtime = 1700000000\<rparr>"
  let ?t = "\<lparr>tname = ''chromium/BUILD.gn'', mode = 292, uid = 1000, gid = 100, tsize = 42,
             mtime = 1234567, ttype = REGTYPE, linkname = [], uname = ''dev'',
             gname = ''users''\<rparr>"
  note frame = filter_frame [of ?self ?t]
  from frame have "\<forall>n. bit (mode (MyTarFile_filter ?self ?t)) n \<longleftrightarrow> bit (mode ?t) n \<or> n = 7"
    by blast
  then have "bit (mode (MyTarFile_filter ?self ?t)) 7"
    by blast
  moreover from frame have "tname (MyTarFile_filter ?self ?t) = tname ?t"
    by blast
  ultimately show ?thesis
    by simp
qed

section \<open>Files under the listed directories\<close>

text \<open>
  Claim C1, amended. Take a regular file whose relative path equals, or lies below, one
  of \<open>nonessential_dirs\<close> or \<open>TEST_DIRS\<close>, whose base name does not match the pattern of
  build-critical names and whose relative path is not in \<open>ESSENTIAL_FILES\<close>. With
  size reduction on, the file is dropped. With size reduction off, it is kept unless
  one of the rules that hold in every mode drops it: the base name is \<open>__pycache__\<close> or
  ends in \<open>.pyc\<close>; the base name is \<open>.svn\<close> or \<open>out\<close> and the directory part of the name
  does not contain \<open>node_modules\<close>; the base name is \<open>.git\<close> and the relative path starts
  with none of \<open>ESSENTIAL_GIT_DIRS\<close>. The witness is the file
  \<open>third_party/blink/web_tests/foo.html\<close>: dropped with the mode on, kept with it off.
\<close>

theorem nonessential_file_decision:
  assumes "relpath cwd name (self_src_dir self) = Inr rel_name"
    and "path_split name = (file_path, file_name)"
    and "under_listed_dir rel_name"
    and "isfile facts" and "\<not> islink facts"
    and "\<not> re_search file_name" and "rel_name \<notin> set ESSENTIAL_FILES"
  shows "add_decision self cwd name facts =
     (if self_remove_nonessential_files self
         \<or> file_name = ''__pycache__'' \<or> endswith file_name ''.pyc''
         \<or> (file_name \<in> set [''.svn'', ''out''] \<and> \<not> str_in ''node_modules'' file_path)
         \<or> (file_name = ''.git''
             \<and> \<not> list_ex (\<lambda>essential. startswith rel_name essential) ESSENTIAL_GIT_DIRS)
      then Inr Skip else Inr Keep)"
proof -
  from assms(6,7) have "\<not> keep_file file_name rel_name"
    by (simp only: keep_file_def simp_thms)
  with assms(3-5) show ?thesis
    unfolding add_decision_flat [OF assms(1,2)] by (intro if_cond_eq) blast
qed

theorem nonessential_file_decision_witness:
  "relpath ''/'' ''/src/third_party/blink/web_tests/foo.html'' ''/src''
     = Inr ''third_party/blink/web_tests/foo.html''
   \<and> path_split ''/src/third_party/blink/web_tests/foo.html''
     = (''/src/third_party/blink/web_tests'', ''foo.html'')
   \<and> under_listed_dir ''third_party/blink/web_tests/foo.html''
   \<and> \<not> re_search ''foo.html''
   \<and> ''third_party/blink/web_tests/foo.html'' \<notin> set ESSENTIAL_FILES
   \<and> add_decision
       \<lparr>self_remove_nonessential_files = True, self_verbose = False,
        self_src_dir = ''/src'', self_mtime = 1700000000\<rparr>
       ''/'' ''/src/third_party/blink/web_tests/foo.html''
       \<lparr>islink = False, exists = True, isfile = True, isdir = False\<rparr> = Inr Skip
   \<and> add_decision
       \<lparr>self_remove_nonessential_files = False, self_verbose = False,
        self_src_dir = ''/src'', self_mtime = 1700000000\<rparr>
       ''/'' ''/src/third_party/blink/web_tests/foo.html''
       \<lparr>islink = False, exists = True, isfile = True, isdir = False\<rparr> = Inr Keep"
proof -
  let ?name = "''/src/third_party/blink/web_tests/foo.html''"
  let ?rel = "''third_party/blink/web_tests/foo.html''"
  let ?on = "\<lparr>self_remove_nonessential_files = True, self_verbose = False,
              self_src_dir = ''/src'', self_mtime = 1700000000\<rparr>"
  let ?off = "\<lparr>self_remove_nonessential_files = False, self_verbose = False,
               self_src_dir = ''/src'', self_mtime = 1700000000\<rparr>"
  let ?facts = "\<lparr>islink = False, exists = True, isfile = True, isdir = False\<rparr>"
  have h1: "relpath ''/'' ?name ''/src'' = Inr ?rel"
    by code_simp
  have h2: "path_split ?name = (''/src/third_party/blink/web_tests'', ''foo.html'')"
    by code_simp
  have h3: "under_listed_dir ?rel"
    by code_simp
  have h4: "\<not> re_search ''foo.html''"
    by code_simp
  have h5: "?rel \<notin> set ESSENTIAL_FILES"
    by code_simp
  have f: "isfile ?facts" "\<not> islink ?facts"
    by simp_all
  have on: "relpath ''/'' ?name (self_src_dir ?on) = Inr ?rel"
    using h1 by simp
  have off: "relpath ''/'' ?name (self_src_dir ?off) = Inr ?rel"
    using h1 by simp
  have p: "\<not> endswith ''foo.html'' ''.pyc''"
    by code_simp
  have "add_decision ?on ''/'' ?name ?facts = Inr Skip"
    unfolding nonessential_file_decision [OF on h2 h3 f h4 h5] by simp
  moreover have "add_decision ?off ''/'' ?name ?facts = Inr Keep"
    unfolding nonessential_file_decision [OF off h2 h3 f h4 h5] using p by simp
  ultimately show ?thesis
    using h1 h2 h3 h4 h5 by blast
qed

text \<open>
  The claim as it was stated promises that such a file is kept whenever size reduction
  is off. The compiled Python file \<open>third_party/blink/tools/run_web_tests.pyc\<close> meets
  every condition of the claim and is dropped with the mode off, by the \<open>.pyc\<close> rule.
\<close>

theorem nonessential_file_kept_counterexample:
  "relpath ''/'' ''/src/third_party/blink/tools/run_web_tests.pyc'' ''/src''
     = Inr ''third_party/blink/tools/run_web_tests.pyc''
   \<and> under_listed_dir ''third_party/blink/tools/run_web_tests.pyc''
   \<and> snd (path_split ''/src/third_party/blink/tools/run_web_tests.pyc'') = ''run_web_tests.pyc''
   \<and> \<not> re_search ''run_web_tests.pyc''
   \<and> ''third_party/blink/tools/run_web_tests.pyc'' \<notin> set ESSENTIAL_FILES
   \<and> add_decision
       \<lparr>self_remove_nonessential_files = False, self_verbose = False,
        self_src_dir = ''/src'', self_mtime = 1700000000\<rparr>
       ''/'' ''/src/third_party/blink/tools/run_web_tests.pyc''
       \<lparr>islink = False, exists = True, isfile = True, isdir = False\<rparr> = Inr Skip"
proof -
  have "relpath ''/'' ''/src/third_party/blink/tools/run_web_tests.pyc'' ''/src''
     = Inr ''third_party/blink/tools/run_web_tests.pyc''"
    by code_simp
  moreover have "under_listed_dir ''third_party/blink/tools/run_web_tests.pyc''"
    by code_simp
  moreover have "snd (path_split ''/src/third_party/blink/tools/run_web_tests.pyc'')
     = ''run_web_tests.pyc''"
    by code_simp
  moreover have "\<not> re_search ''run_web_tests.pyc''"
    by code_simp
  moreover have "''third_party/blink/tools/run_web_tests.pyc'' \<notin> set ESSENTIAL_FILES"
    by code_simp
  moreover have "add_decision
       \<lparr>self_remove_nonessential_files = False, self_verbose = False,
        self_src_dir = ''/src'', self_mtime = 1700000000\<rparr>
       ''/'' ''/src/third_party/blink/tools/run_web_tests.pyc''
       \<lparr>islink = False, exists = True, isfile = True, isdir = False\<rparr> = Inr Skip"
    by code_simp
  ultimately show ?thesis
    by blast
qed

section \<open>Build-critical file names\<close>

text \<open>
  Claim C2, amended. An entry whose base name ends in \<open>.gn\<close>, \<open>.gni\<close>, \<open>.grd\<close>, \<open>.grdp\<close>,
  \<open>.isolate\<close> or \<open>.pydeps\<close>, optionally followed by a dot and one or more characters none
  of which is white space, is kept, in size-reduction mode as in the other, also
  under a listed directory, provided that it is not a broken symbolic link, that its
  base name does not end in \<open>.pyc\<close> and that the name handed to the filter does not
  contain \<open>ChangeLog\<close>. Those three rules are checked before the pattern is.
\<close>

theorem build_file_kept:
  assumes "relpath cwd name (self_src_dir self) = Inr rel_name"
    and "path_split name = (file_path, file_name)"
    and "file_name = stem @ CHR ''.'' # ext @ extra"
    and "ext \<in> set pattern_exts"
    and "extra = [] \<or> (extra = CHR ''.'' # w \<and> w \<noteq> [] \<and> list_all (\<lambda>c. \<not> isspace c) w)"
    and "\<not> (islink facts \<and> \<not> exists facts)"
    and "\<not> endswith file_name ''.pyc''"
    and "\<not> str_in ''ChangeLog'' name"
  shows "add_decision self cwd name facts = Inr Keep"
proof -
  have m: "re_search file_name"
    unfolding assms(3) using assms(4,5) by (rule re_search_ext)
  then have k: "keep_file file_name rel_name"
    by (simp only: keep_file_def simp_thms)
  from m re_search_special have n: "file_name \<noteq> ''__pycache__''" "file_name \<noteq> ''.svn''"
    "file_name \<noteq> ''out''" "file_name \<noteq> ''.git''"
    by blast+
  then have "file_name \<notin> set [''.svn'', ''out'']"
    by (simp only: list.set insert_iff empty_iff simp_thms)
  with k n assms(6-8) have "\<not> ((islink facts \<and> \<not> exists facts)
         \<or> (file_name = ''__pycache__'' \<or> endswith file_name ''.pyc'')
         \<or> (file_name \<in> set [''.svn'', ''out''] \<and> \<not> str_in ''node_modules'' file_path)
         \<or> (file_name = ''.git''
             \<and> \<not> list_ex (\<lambda>essential. startswith rel_name essential) ESSENTIAL_GIT_DIRS)
         \<or> (self_remove_nonessential_files self \<and> str_in ''ChangeLog'' name)
         \<or> (self_remove_nonessential_files self \<and> \<not> keep_file file_name rel_name
             \<and> under_listed_dir rel_name \<and> (isfile facts \<or> islink facts)))"
    by blast
  then show ?thesis
    unfolding add_decision_flat [OF assms(1,2)] by (rule if_not_P)
qed

theorem build_file_kept_witness:
  "relpath ''/'' ''/src/third_party/blink/web_tests/BUILD.gn.orig'' ''/src''
     = Inr ''third_party/blink/web_tests/BUILD.gn.orig''
   \<and> under_listed_dir ''third_party/blink/web_tests/BUILD.gn.orig''
   \<and> add_decision
       \<lparr>self_remove_nonessential_files = True, self_verbose = False,
        self_src_dir = ''/src'', self_mtime = 1700000000\<rparr>
       ''/'' ''/src/third_party/blink/web_tests/BUILD.gn.orig''
       \<lparr>islink = False, exists = True, isfile = True, isdir = False\<rparr> = Inr Keep"
proof -
  let ?name = "''/src/third_party/blink/web_tests/BUILD.gn.orig''"
  let ?rel = "''third_party/blink/web_tests/BUILD.gn.orig''"
  let ?on = "\<lparr>self_remove_nonessential_files = True, self_verbose = False,
              self_src_dir = ''/src'', self_mtime = 1700000000\<rparr>"
  let ?facts = "\<lparr>islink = False, exists = True, isfile = True, isdir = False\<rparr>"
  have h1: "relpath ''/'' ?name ''/src'' = Inr ?rel"
    by code_simp
  have on: "relpath ''/'' ?name (self_src_dir ?on) = Inr ?rel"
    using h1 by simp
  have h2: "path_split ?name = (''/src/third_party/blink/web_tests'', ''BUILD.gn.orig'')"
    by code_simp
  have h3: "''BUILD.gn.orig'' = ''BUILD'' @ CHR ''.'' # ''gn'' @ ''.orig''"
    by simp
  have h4: "''gn'' \<in> set pattern_exts"
    by code_simp
  have "list_all (\<lambda>c. \<not> isspace c) ''orig''"
    by code_simp
  then have h5: "''.orig'' = [] \<or> (''.orig'' = CHR ''.'' # ''orig'' \<and> ''orig'' \<noteq> []
      \<and> list_all (\<lambda>c. \<not> isspace c) ''orig'')"
    by simp
  have h6: "\<not> (islink ?facts \<and> \<not> exists ?facts)"
    by simp
  have h7: "\<not> endswith ''BUILD.gn.orig'' ''.pyc''"
    by code_simp
  have h8: "\<not> str_in ''ChangeLog'' ?name"
    by code_simp
  have "under_listed_dir ?rel"
    by code_simp
  then show ?thesis
    using h1 build_file_kept [OF on h2 h3 h4 h5 h6 h7 h8] by blast
qed

text \<open>
  The claim as it was stated has no proviso. \<open>v8/test/ChangeLog/BUILD.gn\<close> has a base
  name that ends in \<open>.gn\<close> and is dropped in size-reduction mode, because the test for
  \<open>ChangeLog\<close> in the name comes first.
\<close>

theorem build_file_kept_counterexample:
  "snd (path_split ''/src/v8/test/ChangeLog/BUILD.gn'') = ''BUILD.gn''
   \<and> endswith ''BUILD.gn'' ''.gn''
   \<and> add_decision
       \<lparr>self_remove_nonessential_files = True, self_verbose = False,
        self_src_dir = ''/src'', self_mtime = 1700000000\<rparr>
       ''/'' ''/src/v8/test/ChangeLog/BUILD.gn''
       \<lparr>islink = False, exists = True, isfile = True, isdir = False\<rparr> = Inr Skip"
proof -
  have "snd (path_split ''/src/v8/test/ChangeLog/BUILD.gn'') = ''BUILD.gn''"
    by code_simp
  moreover have "endswith ''BUILD.gn'' ''.gn''"
    by code_simp
  moreover have "add_decision
       \<lparr>self_remove_nonessential_files = True, self_verbose = False,
        self_src_dir = ''/src'', self_mtime = 1700000000\<rparr>
       ''/'' ''/src/v8/test/ChangeLog/BUILD.gn''
       \<lparr>islink = False, exists = True, isfile = True, isdir = False\<rparr> = Inr Skip"
    by code_simp
  ultimately show ?thesis
    by blast
qed

section \<open>Entries named \<open>.svn\<close> and \<open>out\<close>\<close>

text \<open>
  Claim C3, amended. Take an entry whose base name is \<open>.svn\<close> or \<open>out\<close>. If the directory
  part of its name does not contain the substring \<open>node_modules\<close>, it is dropped, in
  every mode. If it does contain it, which is so whenever a component of the
  directory part is named \<open>node_modules\<close>, but also when \<open>node_modules\<close> is only a part of
  a longer component, this rule does not drop the entry; it is then kept unless it is a
  broken symbolic link or, in size-reduction mode, its name contains \<open>ChangeLog\<close> or
  it is a file or link under a listed directory whose relative path is not in
  \<open>ESSENTIAL_FILES\<close>.
\<close>

theorem svn_out_decision:
  assumes "relpath cwd name (self_src_dir self) = Inr rel_name"
    and "path_split name = (file_path, file_name)"
    and "file_name \<in> set [''.svn'', ''out'']"
  shows "add_decision self cwd name facts =
     (if \<not> str_in ''node_modules'' file_path
         \<or> (islink facts \<and> \<not> exists facts)
         \<or> (self_remove_nonessential_files self
             \<and> (str_in ''ChangeLog'' name
                 \<or> (rel_name \<notin> set ESSENTIAL_FILES \<and> under_listed_dir rel_name
                     \<and> (isfile facts \<or> islink facts))))
      then Inr Skip else Inr Keep)
   \<and> (''node_modules'' \<in> set (str_split sep file_path) \<longrightarrow> str_in ''node_modules'' file_path)"
proof -
  have p: "\<not> endswith ''.svn'' ''.pyc''" "\<not> endswith ''out'' ''.pyc''"
    by code_simp+
  have q: "''.svn'' \<noteq> ''__pycache__''" "''out'' \<noteq> ''__pycache__''"
    "''.svn'' \<noteq> ''.git''" "''out'' \<noteq> ''.git''"
    by simp_all
  from assms(3) have c: "file_name = ''.svn'' \<or> file_name = ''out''"
    by simp
  then have n: "file_name \<noteq> ''__pycache__''" "\<not> endswith file_name ''.pyc''"
    "file_name \<noteq> ''.git''" "\<not> re_search file_name"
  proof -
    from c show "file_name \<noteq> ''__pycache__''"
    proof
      assume "file_name = ''.svn''" then show ?thesis by (simp only: q simp_thms)
    next
      assume "file_name = ''out''" then show ?thesis by (simp only: q simp_thms)
    qed
    from c show "\<not> endswith file_name ''.pyc''"
    proof
      assume "file_name = ''.svn''" then show ?thesis by (simp only: p simp_thms)
    next
      assume "file_name = ''out''" then show ?thesis by (simp only: p simp_thms)
    qed
    from c show "file_name \<noteq> ''.git''"
    proof
      assume "file_name = ''.svn''" then show ?thesis by (simp only: q simp_thms)
    next
      assume "file_name = ''out''" then show ?thesis by (simp only: q simp_thms)
    qed
    from c show "\<not> re_search file_name"
    proof
      assume "file_name = ''.svn''" then show ?thesis by (simp only: re_search_special simp_thms)
    next
      assume "file_name = ''out''" then show ?thesis by (simp only: re_search_special simp_thms)
    qed
  qed
  then have k: "keep_file file_name rel_name \<longleftrightarrow> rel_name \<in> set ESSENTIAL_FILES"
    by (simp only: keep_file_def simp_thms)
  have "add_decision self cwd name facts =
     (if \<not> str_in ''node_modules'' file_path
         \<or> (islink facts \<and> \<not> exists facts)
         \<or> (self_remove_nonessential_files self
             \<and> (str_in ''ChangeLog'' name
                 \<or> (rel_name \<notin> set ESSENTIAL_FILES \<and> under_listed_dir rel_name
                     \<and> (isfile facts \<or> islink facts))))
      then Inr Skip else Inr Keep)"
    unfolding add_decision_flat [OF assms(1,2)] using n(1-3) k assms(3)
    by (intro if_cond_eq) (simp only: simp_thms, blast)
  moreover have "''node_modules'' \<in> set (str_split sep file_path)
      \<longrightarrow> str_in ''node_modules'' file_path"
    unfolding str_in_def using component_is_substring by blast
  ultimately show ?thesis
    by (rule conjI)
qed

theorem svn_out_decision_witness:
  "add_decision
       \<lparr>self_remove_nonessential_files = True, self_verbose = False,
        self_src_dir = ''/src'', self_mtime = 1700000000\<rparr>
       ''/'' ''/src/third_party/devtools-frontend/src/node_modules/terser/out''
       \<lparr>islink = False, exists = True, isfile = False, isdir = True\<rparr> = Inr Keep
   \<and> add_decision
       \<lparr>self_remove_nonessential_files = False, self_verbose = False,
        self_src_dir = ''/src'', self_mtime = 1700000000\<rparr>
       ''/'' ''/src/out''
       \<lparr>islink = False, exists = True, isfile = False, isdir = True\<rparr> = Inr Skip"
proof -
  let ?name = "''/src/third_party/devtools-frontend/src/node_modules/terser/out''"
  let ?dir = "''/src/third_party/devtools-frontend/src/node_modules/terser''"
  let ?rel = "''third_party/devtools-frontend/src/node_modules/terser/out''"
  let ?on = "\<lparr>self_remove_nonessential_files = True, self_verbose = False,
              self_src_dir = ''/src'', self_mtime = 1700000000\<rparr>"
  let ?off = "\<lparr>self_remove_nonessential_files = False, self_verbose = False,
               self_src_dir = ''/src'', self_mtime = 1700000000\<rparr>"
  let ?facts = "\<lparr>islink = False, exists = True, isfile = False, isdir = True\<rparr>"
  have a1: "relpath ''/'' ?name (self_src_dir ?on) = Inr ?rel"
    by code_simp
  have a2: "path_split ?name = (?dir, ''out'')"
    by code_simp
  have a3: "''out'' \<in> set [''.svn'', ''out'']"
    by simp
  have a4: "str_in ''node_modules'' ?dir"
    by code_simp
  have a5: "\<not> str_in ''ChangeLog'' ?name"
    by code_simp
  have a6: "\<not> under_listed_dir ?rel"
    by code_simp
  have b1: "relpath ''/'' ''/src/out'' (self_src_dir ?off) = Inr ''out''"
    by code_simp
  have b2: "path_split ''/src/out'' = (''/src'', ''out'')"
    by code_simp
  have b4: "\<not> str_in ''node_modules'' ''/src''"
    by code_simp
  from svn_out_decision [OF a1 a2 a3, of ?facts] a4 a5 a6
  have "add_decision ?on ''/'' ?name ?facts = Inr Keep"
    by simp
  moreover from svn_out_decision [OF b1 b2 a3, of ?facts] b4
  have "add_decision ?off ''/'' ''/src/out'' ?facts = Inr Skip"
    by simp
  ultimately show ?thesis
    by blast
qed

text \<open>
  The claim as it was stated says that an \<open>out\<close> entry is still dropped when
  \<open>node_modules\<close> is only a substring of a longer component. The directory
  \<open>third_party/old_node_modules/out\<close> has no component named \<open>node_modules\<close> and is kept.
\<close>

theorem svn_out_decision_counterexample:
  "snd (path_split ''/src/third_party/old_node_modules/out'') = ''out''
   \<and> ''node_modules'' \<notin> set (str_split sep ''/src/third_party/old_node_modules/out'')
   \<and> add_decision
       \<lparr>self_remove_nonessential_files = False, self_verbose = False,
        self_src_dir = ''/src'', self_mtime = 1700000000\<rparr>
       ''/'' ''/src/third_party/old_node_modules/out''
       \<lparr>islink = False, exists = True, isfile = False, isdir = True\<rparr> = Inr Keep"
proof -
  have "snd (path_split ''/src/third_party/old_node_modules/out'') = ''out''"
    by code_simp
  moreover have "''node_modules'' \<notin> set (str_split sep ''/src/third_party/old_node_modules/out'')"
    by code_simp
  moreover have "add_decision
       \<lparr>self_remove_nonessential_files = False, self_verbose = False,
        self_src_dir = ''/src'', self_mtime = 1700000000\<rparr>
       ''/'' ''/src/third_party/old_node_modules/out''
       \<lparr>islink = False, exists = True, isfile = False, isdir = True\<rparr> = Inr Keep"
    by code_simp
  ultimately show ?thesis
    by blast
qed

section \<open>An essential file under a test data directory\<close>

text \<open>
  Claim C6, amended. The entry with relative path
  \<open>chrome/test/data/webui/i18n_process_css_test.html\<close> and base name
  \<open>i18n_process_css_test.html\<close> is kept in size-reduction mode (and in the other),
  because the path is in \<open>ESSENTIAL_FILES\<close>, although it lies below the test data
  directory \<open>chrome/test/data\<close>, provided that it is not a broken symbolic link and that
  the name handed to the filter, which starts with the source directory, does not
  contain \<open>ChangeLog\<close>.
\<close>

theorem essential_file_kept:
  assumes "relpath cwd name (self_src_dir self) = Inr ''chrome/test/data/webui/i18n_process_css_test.html''"
    and "snd (path_split name) = ''i18n_process_css_test.html''"
    and "\<not> (islink facts \<and> \<not> exists facts)"
    and "\<not> str_in ''ChangeLog'' name"
  shows "add_decision self cwd name facts = Inr Keep
    \<and> ''chrome/test/data/webui/i18n_process_css_test.html'' \<in> set ESSENTIAL_FILES
    \<and> startswith ''chrome/test/data/webui/i18n_process_css_test.html'' (''chrome/test/data'' @ ''/'')
    \<and> ''chrome/test/data'' \<in> set TEST_DIRS"
proof -
  let ?rel = "''chrome/test/data/webui/i18n_process_css_test.html''"
  let ?base = "''i18n_process_css_test.html''"
  have sp: "path_split name = (fst (path_split name), ?base)"
    using assms(2) by (rule path_split_pair)
  have e: "?rel \<in> set ESSENTIAL_FILES"
    by code_simp
  then have k: "keep_file ?base ?rel"
    by (simp only: keep_file_def simp_thms)
  have p: "\<not> endswith ?base ''.pyc''"
    by code_simp
  have q: "?base \<noteq> ''__pycache__''" "?base \<noteq> ''.git''" "?base \<notin> set [''.svn'', ''out'']"
    by simp_all
  from k p q assms(3,4) have "\<not> ((islink facts \<and> \<not> exists facts)
         \<or> (?base = ''__pycache__'' \<or> endswith ?base ''.pyc'')
         \<or> (?base \<in> set [''.svn'', ''out'']
             \<and> \<not> str_in ''node_modules'' (fst (path_split name)))
         \<or> (?base = ''.git''
             \<and> \<not> list_ex (\<lambda>essential. startswith ?rel essential) ESSENTIAL_GIT_DIRS)
         \<or> (self_remove_nonessential_files self \<and> str_in ''ChangeLog'' name)
         \<or> (self_remove_nonessential_files self \<and> \<not> keep_file ?base ?rel
             \<and> under_listed_dir ?rel \<and> (isfile facts \<or> islink facts)))"
    by blast
  then have "add_decision self cwd name facts = Inr Keep"
    unfolding add_decision_flat [OF assms(1) sp] by (rule if_not_P)
  moreover have "startswith ?rel (''chrome/test/data'' @ ''/'')"
    by code_simp
  moreover have "''chrome/test/data'' \<in> set TEST_DIRS"
    by code_simp
  ultimately show ?thesis
    using e by blast
qed

theorem essential_file_kept_witness:
  "add_decision
       \<lparr>self_remove_nonessential_files = True, self_verbose = False,
        self_src_dir = ''/src'', self_mtime = 1700000000\<rparr>
       ''/'' ''/src/chrome/test/data/webui/i18n_process_css_test.html''
       \<lparr>islink = False, exists = True, isfile = True, isdir = False\<rparr> = Inr Keep
   \<and> under_listed_dir ''chrome/test/data/webui/i18n_process_css_test.html''"
proof -
  let ?name = "''/src/chrome/test/data/webui/i18n_process_css_test.html''"
  let ?on = "\<lparr>self_remove_nonessential_files = True, self_verbose = False,
              self_src_dir = ''/src'', self_mtime = 1700000000\<rparr>"
  let ?facts = "\<lparr>islink = False, exists = True, isfile = True, isdir = False\<rparr>"
  have h1: "relpath ''/'' ?name (self_src_dir ?on)
      = Inr ''chrome/test/data/webui/i18n_process_css_test.html''"
    by code_simp
  have h2: "snd (path_split ?name) = ''i18n_process_css_test.html''"
    by code_simp
  have h3: "\<not> (islink ?facts \<and> \<not> exists ?facts)"
    by simp
  have h4: "\<not> str_in ''ChangeLog'' ?name"
    by code_simp
  have "under_listed_dir ''chrome/test/data/webui/i18n_process_css_test.html''"
    by code_simp
  then show ?thesis
    using essential_file_kept [OF h1 h2 h3 h4] by blast
qed

text \<open>
  The claim as it was stated has no proviso. With the source directory
  \<open>/ChangeLog/src\<close> the file has the same relative path and is dropped in
  size-reduction mode: the test for \<open>ChangeLog\<close> reads the whole name and comes before
  the test for essential files.
\<close>

theorem essential_file_kept_counterexample:
  "relpath ''/'' ''/ChangeLog/src/chrome/test/data/webui/i18n_process_css_test.html''
       ''/ChangeLog/src'' = Inr ''chrome/test/data/webui/i18n_process_css_test.html''
   \<and> add_decision
       \<lparr>self_remove_nonessential_files = True, self_verbose = False,
        self_src_dir = ''/ChangeLog/src'', self_mtime = 1700000000\<rparr>
       ''/'' ''/ChangeLog/src/chrome/test/data/webui/i18n_process_css_test.html''
       \<lparr>islink = False, exists = True, isfile = True, isdir = False\<rparr> = Inr Skip"
proof -
  have "relpath ''/'' ''/ChangeLog/src/chrome/test/data/webui/i18n_process_css_test.html''
       ''/ChangeLog/src'' = Inr ''chrome/test/data/webui/i18n_process_css_test.html''"
    by code_simp
  moreover have "add_decision
       \<lparr>self_remove_nonessential_files = True, self_verbose = False,
        self_src_dir = ''/ChangeLog/src'', self_mtime = 1700000000\<rparr>
       ''/'' ''/ChangeLog/src/chrome/test/data/webui/i18n_process_css_test.html''
       \<lparr>islink = False, exists = True, isfile = True, isdir = False\<rparr> = Inr Skip"
    by code_simp
  ultimately show ?thesis
    by blast
qed

section \<open>Every member of the archive is normalized\<close>

text \<open>What each step does to the list of members.\<close>

lemma members_simps:
  "members (print line st) = members st"
  "members (raise e st) = members st"
  "members (addfile tarinfo st) = members st @ [tarinfo]"
  "members (report_skipped self name st) = members st"
  "members (report_added self name st) = members st"
  by (simp_all add: print_def raise_def addfile_def report_skipped_def report_added_def)

lemma filter_normalized: "normalized self (MyTarFile_filter self tarinfo)"
  by (simp add: MyTarFile_filter_def bit_or_iff bit_S_IWUSR)

lemma add_normalized:
  "list_all (normalized self) (members st) \<Longrightarrow>
     list_all (normalized self) (members (add self cwd name arcname nd st))"
  "list_all (normalized self) (members st) \<Longrightarrow>
     list_all (normalized self) (members (TarFile_add self cwd name arcname nd st))"
  "list_all (normalized self) (members st) \<Longrightarrow>
     list_all (normalized self) (members (add_entries self cwd name arcname entries st))"
proof (induction self cwd name arcname nd st and self cwd name arcname nd st
    and self cwd name arcname entries st rule: add_TarFile_add_add_entries.induct)
  case (1 self cwd name arcname nd st)
  then show ?case
    by (simp add: members_simps split: sum.split decision.split)
next
  case (2 self cwd name arcname fcts ls unr entries st)
  then show ?case
    using filter_normalized
    by (simp add: members_simps Let_def split: sum.split option.split)
next
  case (3 self cwd name arcname st)
  then show ?case by simp
next
  case (4 self cwd name arcname f nd rest st)
  then show ?case by simp
qed

lemma add_test_dirs_normalized:
  "list_all (normalized self) (members st) \<Longrightarrow>
     list_all (normalized self) (members (add_test_dirs self env src output_basename dirs st))"
  by (induction dirs arbitrary: st)
    (simp_all add: Let_def members_simps add_normalized(1) del: add.simps)

lemma write_archive_normalized:
  "list_all (normalized self) (members (write_archive self options env src output_basename))"
  by (simp add: write_archive_def Let_def members_simps add_normalized(1)
      add_test_dirs_normalized del: add.simps split: option.split)

text \<open>
  Claim C7. Every member of the archive that a run of \<open>main\<close> writes has the values
  that \<open>__filter\<close> assigns: its modification time is the one timestamp that the run
  read from \<open>build/util/LASTCHANGE.committime\<close>, its numeric owner and group are 0, its
  owner and group names are the string \<open>0\<close>, and bit 7 of its mode, the owner-write bit,
  is set. This holds in full-tree mode and in test-data mode, for every file system
  and every option, also when the run ends in an exception.
\<close>

theorem archive_members_normalized:
  assumes "tarinfo \<in> set (archive (main options args env))"
  shows "committime env = Inr (mtime tarinfo)
     \<and> uid tarinfo = 0 \<and> gid tarinfo = 0
     \<and> uname tarinfo = ''0'' \<and> gname tarinfo = ''0''
     \<and> bit (mode tarinfo) 7"
proof -
  from assms obtain src timestamp output_basename where
    t: "committime env = Inr timestamp"
    and m: "tarinfo \<in> set (members (write_archive
        \<lparr>self_remove_nonessential_files = opt_remove_nonessential_files options,
         self_verbose = opt_verbose options, self_src_dir = src,
         self_mtime = timestamp\<rparr> options env src output_basename))"
    by (auto simp add: main_def Let_def
        split: list.splits if_splits option.splits sum.splits)
  from m write_archive_normalized
  have "normalized \<lparr>self_remove_nonessential_files = opt_remove_nonessential_files options,
         self_verbose = opt_verbose options, self_src_dir = src,
         self_mtime = timestamp\<rparr> tarinfo"
    unfolding list_all_iff by blast
  with t show ?thesis
    by simp
qed

theorem archive_members_normalized_witness:
  "let env = \<lparr>getcwd = ''/'',
        fs = (\<lambda>p. if p = ''/src''
               then Node \<lparr>islink = False, exists = True, isfile = False, isdir = True\<rparr>
                      (Inr (Some \<lparr>tname = [], mode = 493, uid = 1000, gid = 100, tsize = 0,
                         mtime = 1234567, ttype = DIRTYPE, linkname = [], uname = ''dev'',
                         gname = ''users''\<rparr>)) False
                      [(''BUILD.gn'',
                        Node \<lparr>islink = False, exists = True, isfile = True, isdir = False\<rparr>
                          (Inr (Some \<lparr>tname = [], mode = 292, uid = 1000, gid = 100,
                             tsize = 42, mtime = 7654321, ttype = REGTYPE, linkname = [],
                             uname = ''dev'', gname = ''users''\<rparr>)) False []),
                       (''out'',
                        Node \<lparr>islink = False, exists = True, isfile = False, isdir = True\<rparr>
                          (Inr (Some \<lparr>tname = [], mode = 493, uid = 1000, gid = 100,
                             tsize = 0, mtime = 7654321, ttype = DIRTYPE, linkname = [],
                             uname = ''dev'', gname = ''users''\<rparr>)) False [])]
               else Node \<lparr>islink = False, exists = False, isfile = False, isdir = False\<rparr>
                      (Inl OSError) False []),
        open_tarball = None, popen_xz = None, committime = Inr 1700000000,
        close_archive = None, xz_wait = 0\<rparr>;
       r = main \<lparr>opt_basename = None, opt_remove_nonessential_files = True,
             opt_test_data = False, opt_xz = False, opt_verbose = True, opt_progress = False,
             opt_src_dir = Some ''/src'', opt_version = Some ''1.0''\<rparr>
             [''/tmp/chromium-1.0''] env;
       t = \<lparr>tname = ''chromium-1.0/BUILD.gn'', mode = 420, uid = 0, gid = 0,
            tsize = 42, mtime = 1700000000, ttype = REGTYPE, linkname = [],
            uname = ''0'', gname = ''0''\<rparr>
   in archive r =
        [\<lparr>tname = ''chromium-1.0'', mode = 493, uid = 0, gid = 0, tsize = 0,
          mtime = 1700000000, ttype = DIRTYPE, linkname = [], uname = ''0'',
          gname = ''0''\<rparr>, t]
      \<and> committime env = Inr (mtime t) \<and> uid t = 0 \<and> gid t = 0
      \<and> uname t = ''0'' \<and> gname t = ''0'' \<and> bit (mode t) 7"
proof -
  let ?env = "\<lparr>getcwd = ''/'',
        fs = (\<lambda>p. if p = ''/src''
               then Node \<lparr>islink = False, exists = True, isfile = False, isdir = True\<rparr>
                      (Inr (Some \<lparr>tname = [], mode = 493, uid = 1000, gid = 100, tsize = 0,
                         mtime = 1234567, ttype = DIRTYPE, linkname = [], uname = ''dev'',
                         gname = ''users''\<rparr>)) False
                      [(''BUILD.gn'',
                        Node \<lparr>islink = False, exists = True, isfile = True, isdir = False\<rparr>
                          (Inr (Some \<lparr>tname = [], mode = 292, uid = 1000, gid = 100,
                             tsize = 42, mtime = 7654321, ttype = REGTYPE, linkname = [],
                             uname = ''dev'', gname = ''users''\<rparr>)) False []),
                       (''out'',
                        Node \<lparr>islink = False, exists = True, isfile = False, isdir = True\<rparr>
                          (Inr (Some \<lparr>tname = [], mode = 493, uid = 1000, gid = 100,
                             tsize = 0, mtime = 7654321, ttype = DIRTYPE, linkname = [],
                             uname = ''dev'', gname = ''users''\<rparr>)) False [])]
               else Node \<lparr>islink = False, exists = False, isfile = False, isdir = False\<rparr>
                      (Inl OSError) False []),
        open_tarball = None, popen_xz = None, committime = Inr 1700000000,
        close_archive = None, xz_wait = 0\<rparr>"
  let ?options = "\<lparr>opt_basename = None, opt_remove_nonessential_files = True,
             opt_test_data = False, opt_xz = False, opt_verbose = True, opt_progress = False,
             opt_src_dir = Some ''/src'', opt_version = Some ''1.0''\<rparr>"
  let ?t = "\<lparr>tname = ''chromium-1.0/BUILD.gn'', mode = 420, uid = 0, gid = 0,
            tsize = 42, mtime = 1700000000, ttype = REGTYPE, linkname = [],
            uname = ''0'', gname = ''0''\<rparr>"
  have a: "archive (main ?options [''/tmp/chromium-1.0''] ?env) =
        [\<lparr>tname = ''chromium-1.0'', mode = 493, uid = 0, gid = 0, tsize = 0,
          mtime = 1700000000, ttype = DIRTYPE, linkname = [], uname = ''0'',
          gname = ''0''\<rparr>, ?t]"
    by code_simp
  then have "?t \<in> set (archive (main ?options [''/tmp/chromium-1.0''] ?env))"
    by (simp only: list.set insert_iff simp_thms)
  from archive_members_normalized [OF this] a show ?thesis
    unfolding Let_def by (rule conjI [rotated])
qed

section \<open>Two runs over the same tree\<close>

text \<open>The traversal does not read what \<open>forget_stored\<close> overwrites.\<close>

lemma forget_stored_sel:
  "node_facts (forget_stored nd) = node_facts nd"
  "node_unreadable (forget_stored nd) = node_unreadable nd"
  "node_entries (forget_stored nd) = forget_stored_entries (node_entries nd)"
  by (cases nd; simp)+

lemma add_forget_stored:
  "add self cwd name arcname (forget_stored nd) st = add self cwd name arcname nd st"
  "TarFile_add self cwd name arcname (forget_stored nd) st
     = TarFile_add self cwd name arcname nd st"
  "add_entries self cwd name arcname (forget_stored_entries entries) st
     = add_entries self cwd name arcname entries st"
proof (induction self cwd name arcname nd st and self cwd name arcname nd st
    and self cwd name arcname entries st rule: add_TarFile_add_add_entries.induct)
  case (1 self cwd name arcname nd st)
  then show ?case
    by (simp add: forget_stored_sel split: sum.split decision.split)
next
  case (2 self cwd name arcname fcts ls unr entries st)
  show ?case
  proof (cases ls)
    case (Inl e)
    then show ?thesis
      by (simp add: gettarinfo_def)
  next
    case (Inr found)
    show ?thesis
    proof (cases found)
      case None
      with Inr show ?thesis
        by (simp add: gettarinfo_def)
    next
      case (Some tarinfo)
      have "gettarinfo (Node fcts ls unr entries) arcname
          = Inr (Some (tarinfo\<lparr>tname := lstrip sep arcname\<rparr>))"
        using Inr Some by (simp add: gettarinfo_def)
      note ih = "2.IH" [OF this refl refl]
      from Inr Some ih show ?thesis
        by (simp add: gettarinfo_def MyTarFile_filter_def Let_def)
    qed
  qed
next
  case (3 self cwd name arcname st)
  then show ?case by simp
next
  case (4 self cwd name arcname f nd rest st)
  then show ?case by simp
qed

lemma add_same_image:
  assumes "forget_stored nd = forget_stored nd'"
  shows "add self cwd name arcname nd st = add self cwd name arcname nd' st"
  using assms add_forget_stored(1) by metis

lemma facts_same_image:
  assumes "forget_stored nd = forget_stored nd'"
  shows "node_facts nd = node_facts nd'"
  using assms forget_stored_sel(1) by metis

lemma add_test_dirs_same_image:
  assumes "\<forall>p. forget_stored (fs env p) = forget_stored (fs2 p)"
  shows "add_test_dirs self (env\<lparr>fs := fs2\<rparr>) src output_basename dirs st
     = add_test_dirs self env src output_basename dirs st"
proof (induction dirs arbitrary: st)
  case Nil
  then show ?case by simp
next
  case (Cons directory rest)
  from assms have f: "node_facts (fs2 (path_join src directory))
      = node_facts (fs env (path_join src directory))"
    using facts_same_image by metis
  from assms have a: "\<And>arc s. add self (getcwd env) (path_join src directory) arc
        (fs2 (path_join src directory)) s
      = add self (getcwd env) (path_join src directory) arc
        (fs env (path_join src directory)) s"
    using add_same_image by metis
  show ?case
    by (simp add: Let_def f a Cons.IH del: add.simps)
qed

lemma write_archive_same_image:
  assumes "\<forall>p. forget_stored (fs env p) = forget_stored (fs2 p)"
  shows "write_archive self options (env\<lparr>fs := fs2\<rparr>) src output_basename
     = write_archive self options env src output_basename"
proof -
  from assms have "\<And>s. add self (getcwd env) src output_basename (fs2 src) s
      = add self (getcwd env) src output_basename (fs env src) s"
    using add_same_image by metis
  then show ?thesis
    by (simp add: write_archive_def Let_def add_test_dirs_same_image [OF assms]
        del: add.simps split: option.split)
qed

text \<open>
  Claim C8. Take two runs with the same options, arguments, working directory,
  provenance timestamp and outcomes of the library calls, over two file systems that
  agree at every path up to the owner, group, owner name, group name and modification
  time that they store. The two archives have the same number of members, and member
  by member the same \<open>mtime\<close>, \<open>uid\<close>, \<open>gid\<close>, \<open>uname\<close> and \<open>gname\<close>; indeed the two runs
  are equal in everything: printed lines, members and result.
\<close>

theorem same_tree_same_metadata:
  assumes "\<forall>p. forget_stored (fs env p) = forget_stored (fs2 p)"
  shows "map (\<lambda>tarinfo. (mtime tarinfo, uid tarinfo, gid tarinfo, uname tarinfo, gname tarinfo))
           (archive (main options args (env\<lparr>fs := fs2\<rparr>)))
       = map (\<lambda>tarinfo. (mtime tarinfo, uid tarinfo, gid tarinfo, uname tarinfo, gname tarinfo))
           (archive (main options args env))
     \<and> main options args (env\<lparr>fs := fs2\<rparr>) = main options args env"
proof -
  from assms have "\<And>p. node_facts (fs2 p) = node_facts (fs env p)"
    using facts_same_image by metis
  then have "main options args (env\<lparr>fs := fs2\<rparr>) = main options args env"
    by (simp add: main_def Let_def write_archive_same_image [OF assms]
        split: list.split option.split sum.split)
  then show ?thesis
    by simp
qed

theorem same_tree_same_metadata_witness:
  "let absent = Node \<lparr>islink = False, exists = False, isfile = False, isdir = False\<rparr>
                  (Inl OSError) False [];
       facts_dir = \<lparr>islink = False, exists = True, isfile = False, isdir = True\<rparr>;
       facts_file = \<lparr>islink = False, exists = True, isfile = True, isdir = False\<rparr>;
       fs1 = (\<lambda>p. if p = ''/src''
               then Node facts_dir
                      (Inr (Some \<lparr>tname = [], mode = 493, uid = 1000, gid = 100, tsize = 0,
                         mtime = 1234567, ttype = DIRTYPE, linkname = [], uname = ''dev'',
                         gname = ''users''\<rparr>)) False
                      [(''BUILD.gn'',
                        Node facts_file
                          (Inr (Some \<lparr>tname = [], mode = 292, uid = 1000, gid = 100,
                             tsize = 42, mtime = 7654321, ttype = REGTYPE, linkname = [],
                             uname = ''dev'', gname = ''users''\<rparr>)) False [])]
               else absent);
       fs2 = (\<lambda>p. if p = ''/src''
               then Node facts_dir
                      (Inr (Some \<lparr>tname = [], mode = 493, uid = 0, gid = 0, tsize = 0,
                         mtime = 99, ttype = DIRTYPE, linkname = [], uname = ''root'',
                         gname = ''root''\<rparr>)) False
                      [(''BUILD.gn'',
                        Node facts_file
                          (Inr (Some \<lparr>tname = [], mode = 292, uid = 501, gid = 20,
                             tsize = 42, mtime = 100, ttype = REGTYPE, linkname = [],
                             uname = ''ci'', gname = ''staff''\<rparr>)) False [])]
               else absent);
       env = \<lparr>getcwd = ''/'', fs = fs1, open_tarball = None, popen_xz = None,
              committime = Inr 1700000000, close_archive = None, xz_wait = 0\<rparr>;
       options = \<lparr>opt_basename = None, opt_remove_nonessential_files = True,
             opt_test_data = False, opt_xz = False, opt_verbose = False,
             opt_progress = False, opt_src_dir = Some ''/src'', opt_version = Some ''1.0''\<rparr>
   in (\<forall>p. forget_stored (fs env p) = forget_stored (fs2 p))
      \<and> fs1 ''/src'' \<noteq> fs2 ''/src''
      \<and> map (\<lambda>tarinfo. (mtime tarinfo, uid tarinfo, gid tarinfo, uname tarinfo, gname tarinfo))
           (archive (main options [''/tmp/chromium-1.0''] (env\<lparr>fs := fs2\<rparr>)))
         = map (\<lambda>tarinfo. (mtime tarinfo, uid tarinfo, gid tarinfo, uname tarinfo, gname tarinfo))
           (archive (main options [''/tmp/chromium-1.0''] env))
      \<and> length (archive (main options [''/tmp/chromium-1.0''] env)) = 2"
proof -
  let ?absent = "Node \<lparr>islink = False, exists = False, isfile = False, isdir = False\<rparr>
                  (Inl OSError) False []"
  let ?facts_dir = "\<lparr>islink = False, exists = True, isfile = False, isdir = True\<rparr>"
  let ?facts_file = "\<lparr>islink = False, exists = True, isfile = True, isdir = False\<rparr>"
  let ?fs1 = "(\<lambda>p. if p = ''/src''
               then Node ?facts_dir
                      (Inr (Some \<lparr>tname = [], mode = 493, uid = 1000, gid = 100, tsize = 0,
                         mtime = 1234567, ttype = DIRTYPE, linkname = [], uname = ''dev'',
                         gname = ''users''\<rparr>)) False
                      [(''BUILD.gn'',
                        Node ?facts_file
                          (Inr (Some \<lparr>tname = [], mode = 292, uid = 1000, gid = 100,
                             tsize = 42, mtime = 7654321, ttype = REGTYPE, linkname = [],
                             uname = ''dev'', gname = ''users''\<rparr>)) False [])]
               else ?absent)"
  let ?fs2 = "(\<lambda>p. if p = ''/src''
               then Node ?facts_dir
                      (Inr (Some \<lparr>tname = [], mode = 493, uid = 0, gid = 0, tsize = 0,
                         mtime = 99, ttype = DIRTYPE, linkname = [], uname = ''root'',
                         gname = ''root''\<rparr>)) False
                      [(''BUILD.gn'',
                        Node ?facts_file
                          (Inr (Some \<lparr>tname = [], mode = 292, uid = 501, gid = 20,
                             tsize = 42, mtime = 100, ttype = REGTYPE, linkname = [],
                             uname = ''ci'', gname = ''staff''\<rparr>)) False [])]
               else ?absent)"
  let ?env = "\<lparr>getcwd = ''/'', fs = ?fs1, open_tarball = None, popen_xz = None,
              committime = Inr 1700000000, close_archive = None, xz_wait = 0\<rparr>"
  let ?options = "\<lparr>opt_basename = None, opt_remove_nonessential_files = True,
             opt_test_data = False, opt_xz = False, opt_verbose = False,
             opt_progress = False, opt_src_dir = Some ''/src'', opt_version = Some ''1.0''\<rparr>"
  have h: "\<forall>p. forget_stored (fs ?env p) = forget_stored (?fs2 p)"
    by simp
  have d: "?fs1 ''/src'' \<noteq> ?fs2 ''/src''"
    by simp
  have l: "length (archive (main ?options [''/tmp/chromium-1.0''] ?env)) = 2"
    by code_simp
  from same_tree_same_metadata [OF h, of ?options "[''/tmp/chromium-1.0'']"] h d l
  show ?thesis
    unfolding Let_def by blast
qed

section \<open>The value that \<open>main\<close> returns\<close>





















end
